theory Spec2Isabelle
  imports Main "HOL-Library.AList" "HOL-Library.Word"
begin

section \<open>Data model of plugins/anthropic/src/claude.ts\<close>

text \<open>
  The numbers of the model are the integers from \<open>-2^53\<close> to \<open>2^53 - 1\<close>, held as
  54-bit signed words and read with \<open>sint\<close>.  Each of them is exactly a
  double-precision Number of JavaScript.  Fractions, larger numbers, \<open>-0\<close>,
  \<open>NaN\<close> and the infinities are not represented.
\<close>

type_synonym number = "54 word"

text \<open>
  Dynamically typed JavaScript values (tool inputs and outputs, configuration fields,
  schemas).  An object is the list of its own properties in enumeration order.
  Strings are lists of 8-bit characters.
\<close>

datatype json =
    JUndefined
  | JNull
  | JBool bool
  | JNum number
  | JStr string
  | JArr "json list"
  | JObj "(string \<times> json) list"

record media_part =
  url :: string
  contentType :: "string option"

record tool_request =
  tq_ref :: "string option"
  tq_name :: string
  tq_input :: json

record tool_response =
  ts_ref :: "string option"
  ts_name :: string
  ts_output :: json

text \<open>
  A Genkit \<open>Part\<close>: an object whose fields \<open>text\<close>, \<open>media\<close>, \<open>toolRequest\<close>
  and \<open>toolResponse\<close> may each be present (\<open>Some\<close>) or absent (\<open>None\<close>).
\<close>

record part =
  text_field :: "string option"
  media :: "media_part option"
  toolRequest :: "tool_request option"
  toolResponse :: "tool_response option"

record message_data =
  role :: string
  content :: "part list"

text \<open>
  Anthropic content blocks, tagged by their \<open>type\<close> field: a text block with its
  \<open>text\<close> (undefined when \<open>JSON.stringify\<close> gave none), an image block with the
  \<open>data\<close> and the \<open>media_type\<close> of its base64 source, a \<open>tool_use\<close> block
  with \<open>id\<close>, \<open>name\<close> and \<open>input\<close>, and a \<open>tool_result\<close> block with
  \<open>tool_use_id\<close> and \<open>content\<close>.  An id is undefined when the part has no
  \<open>ref\<close>.
\<close>

datatype block =
    TextBlock "string option"
  | ImageBlock string json
  | ToolUseBlock "string option" string json
  | ToolResultBlock "string option" "block list"

fun block_type :: "block \<Rightarrow> string" where
  "block_type (TextBlock t) = ''text''"
| "block_type (ImageBlock d mt) = ''image''"
| "block_type (ToolUseBlock i n inp) = ''tool_use''"
| "block_type (ToolResultBlock i c) = ''tool_result''"

text \<open>Reading the field \<open>text\<close> of a block: undefined on every block but a text block.\<close>

fun block_text :: "block \<Rightarrow> string option" where
  "block_text (TextBlock t) = t"
| "block_text (ImageBlock d mt) = None"
| "block_text (ToolUseBlock i n inp) = None"
| "block_text (ToolResultBlock i c) = None"

record message_param =
  mp_role :: string
  mp_content :: "block list"

text \<open>The errors the module throws, with the offending value instead of the message text.\<close>

datatype error =
    UnsupportedRole string
  | InvalidToolResponsePart part
  | InvalidMedia media_part
  | UnsupportedPart part
  | UnsupportedModel string
  | UnsupportedOutputFormat

section \<open>Role mapper\<close>

definition toAnthropicRole :: "string \<Rightarrow> string option \<Rightarrow> error + string" where
  "toAnthropicRole r toolMessageType =
     (if r = ''user'' then Inr ''user''
      else if r = ''model'' then Inr ''assistant''
      else if r = ''tool'' then
        (if toolMessageType = Some ''tool_use'' then Inr ''assistant'' else Inr ''user'')
      else Inl (UnsupportedRole r))"

section \<open>Data URLs\<close>

text \<open>
  \<open>isMediaObject\<close>: a non-null object with an own property \<open>url\<close> holding a string.
\<close>

fun isMediaObject :: "json \<Rightarrow> bool" where
  "isMediaObject (JObj ps) = (case map_of ps ''url'' of Some (JStr u) \<Rightarrow> True | _ \<Rightarrow> False)"
| "isMediaObject _ = False"

record base64_data =
  b64_contentType :: string
  b64_data :: string

text \<open>The characters the regular expression's \<open>.\<close> refuses (among 8-bit characters).\<close>

definition line_terminator :: "char \<Rightarrow> bool" where
  "line_terminator c = (c = CHR 0x0A \<or> c = CHR 0x0D)"

text \<open>
  \<open>url.match(/^data:([^;]+);base64,(.+)$/)\<close>.  After \<open>data:\<close> the first group is the
  longest run of characters other than \<open>;\<close> (a shorter run would be followed by a
  character that is not the \<open>;\<close> the pattern asks for), it is not empty, \<open>;base64,\<close>
  follows, and the second group is the rest of the input, not empty and free of line
  terminators.  No match is \<open>null\<close>.
\<close>

definition extractDataFromBase64Url :: "string \<Rightarrow> base64_data option" where
  "extractDataFromBase64Url u =
     (let rest = drop 5 u;
          mime = takeWhile (\<lambda>c. c \<noteq> CHR '';'') rest;
          after = dropWhile (\<lambda>c. c \<noteq> CHR '';'') rest;
          payload = drop 8 after
      in if take 5 u = ''data:'' \<and> mime \<noteq> [] \<and> take 8 after = '';base64,''
            \<and> payload \<noteq> [] \<and> \<not> list_ex line_terminator payload
         then Some \<lparr>b64_contentType = mime, b64_data = payload\<rparr>
         else None)"

section \<open>JSON.stringify\<close>

text \<open>The decimal digits of a natural number, without leading zero.\<close>

fun digits :: "nat \<Rightarrow> string" where
  "digits n =
     (if n < 10 then [''0123456789'' ! n]
      else digits (n div 10) @ [''0123456789'' ! (n mod 10)])"

declare digits.simps [simp del]

text \<open>
  \<open>Number::toString\<close> on a number of the model: below \<open>10\<^sup>2\<^sup>1\<close> an integer is
  written with its decimal digits, after a minus sign when it is negative.
\<close>

definition Number_toString :: "number \<Rightarrow> string" where
  "Number_toString n =
     (if sint n < 0 then CHR ''-'' # digits (nat (- sint n)) else digits (nat (sint n)))"

definition hex_digit :: "nat \<Rightarrow> char" where
  "hex_digit n = ''0123456789abcdef'' ! n"

text \<open>\<open>QuoteJSONString\<close> on one 8-bit character.\<close>

definition quote_char :: "char \<Rightarrow> string" where
  "quote_char c =
     (if c = CHR 0x22 then [CHR 0x5C, CHR 0x22]
      else if c = CHR 0x5C then [CHR 0x5C, CHR 0x5C]
      else if c = CHR 0x08 then [CHR 0x5C, CHR ''b'']
      else if c = CHR 0x09 then [CHR 0x5C, CHR ''t'']
      else if c = CHR 0x0A then [CHR 0x5C, CHR ''n'']
      else if c = CHR 0x0C then [CHR 0x5C, CHR ''f'']
      else if c = CHR 0x0D then [CHR 0x5C, CHR ''r'']
      else if (of_char c :: nat) < 32 then
        [CHR 0x5C, CHR ''u'', CHR ''0'', CHR ''0'',
         hex_digit (of_char c div 16), hex_digit (of_char c mod 16)]
      else [c])"

definition quote_string :: "string \<Rightarrow> string" where
  "quote_string s = [CHR 0x22] @ concat (map quote_char s) @ [CHR 0x22]"

fun join :: "string \<Rightarrow> string list \<Rightarrow> string" where
  "join sep [] = []"
| "join sep [x] = x"
| "join sep (x # y # ys) = x @ sep @ join sep (y # ys)"

text \<open>
  \<open>JSON.stringify\<close>: \<open>undefined\<close> has no serialisation (the result is \<open>undefined\<close>,
  here \<open>None\<close>), is written \<open>null\<close> inside an array and drops its property inside an
  object.
\<close>

fun JSON_stringify :: "json \<Rightarrow> string option"
and stringify_elements :: "json list \<Rightarrow> string list"
and stringify_properties :: "(string \<times> json) list \<Rightarrow> string list" where
  "JSON_stringify JUndefined = None"
| "JSON_stringify JNull = Some ''null''"
| "JSON_stringify (JBool b) = Some (if b then ''true'' else ''false'')"
| "JSON_stringify (JNum i) = Some (Number_toString i)"
| "JSON_stringify (JStr s) = Some (quote_string s)"
| "JSON_stringify (JArr xs) = Some (''['' @ join '','' (stringify_elements xs) @ '']'')"
| "JSON_stringify (JObj ps) = Some (''{'' @ join '','' (stringify_properties ps) @ ''}'')"
| "stringify_elements [] = []"
| "stringify_elements (x # xs) =
     (case JSON_stringify x of None \<Rightarrow> ''null'' | Some s \<Rightarrow> s) # stringify_elements xs"
| "stringify_properties [] = []"
| "stringify_properties ((k, v) # ps) =
     (case JSON_stringify v of
        None \<Rightarrow> stringify_properties ps
      | Some s \<Rightarrow> (quote_string k @ '':'' @ s) # stringify_properties ps)"

section \<open>Content block converters\<close>

text \<open>Reading a property of a value that may not be an object: \<open>undefined\<close> when absent.\<close>

definition get_property :: "json \<Rightarrow> string \<Rightarrow> json" where
  "get_property v k =
     (case v of
        JObj ps \<Rightarrow> (case map_of ps k of Some x \<Rightarrow> x | None \<Rightarrow> JUndefined)
      | _ \<Rightarrow> JUndefined)"

definition nullish :: "json \<Rightarrow> bool" where
  "nullish v = (v = JUndefined \<or> v = JNull)"

text \<open>\<open>a ?? b\<close>\<close>

definition coalesce :: "json \<Rightarrow> json \<Rightarrow> json" where
  "coalesce a b = (if nullish a then b else a)"

text \<open>Truthiness of an optional string: \<open>undefined\<close> and the empty string are falsy.\<close>

definition truthy_string :: "string option \<Rightarrow> bool" where
  "truthy_string s = (case s of None \<Rightarrow> False | Some t \<Rightarrow> t \<noteq> [])"

definition toAnthropicToolResponseContent :: "part \<Rightarrow> error + block" where
  "toAnthropicToolResponseContent p =
     (case toolResponse p of
        None \<Rightarrow> Inl (InvalidToolResponsePart p)
      | Some tr \<Rightarrow>
          let out = ts_output tr;
              isMedia = isMediaObject out;
              base64Data =
                (if isMedia then
                   (case get_property out ''url'' of
                      JStr u \<Rightarrow> extractDataFromBase64Url u
                    | _ \<Rightarrow> None)
                 else (case out of JStr s \<Rightarrow> extractDataFromBase64Url s | _ \<Rightarrow> None))
          in (case base64Data of
                Some d \<Rightarrow>
                  Inr (ImageBlock (b64_data d)
                        (coalesce (get_property out ''contentType'') (JStr (b64_contentType d))))
              | None \<Rightarrow>
                  Inr (TextBlock (case out of JStr s \<Rightarrow> Some s | _ \<Rightarrow> JSON_stringify out))))"

definition toAnthropicMessageContent :: "part \<Rightarrow> error + block" where
  "toAnthropicMessageContent p =
     (if truthy_string (text_field p) then Inr (TextBlock (text_field p))
      else
        (case media p of
           Some m \<Rightarrow>
             (case extractDataFromBase64Url (url m) of
                None \<Rightarrow> Inl (InvalidMedia m)
              | Some d \<Rightarrow>
                  Inr (ImageBlock (b64_data d)
                        (JStr (case contentType m of Some c \<Rightarrow> c | None \<Rightarrow> b64_contentType d))))
         | None \<Rightarrow>
             (case toolRequest p of
                Some r \<Rightarrow> Inr (ToolUseBlock (tq_ref r) (tq_name r) (tq_input r))
              | None \<Rightarrow>
                  (case toolResponse p of
                     Some tr \<Rightarrow>
                       (case toAnthropicToolResponseContent p of
                          Inl e \<Rightarrow> Inl e
                        | Inr b \<Rightarrow> Inr (ToolResultBlock (ts_ref tr) [b]))
                   | None \<Rightarrow> Inl (UnsupportedPart p)))))"

definition fromAnthropicContentBlock :: "block \<Rightarrow> part" where
  "fromAnthropicContentBlock contentBlock =
     (case contentBlock of
        ToolUseBlock i n inp \<Rightarrow>
          \<lparr>text_field = None, media = None,
           toolRequest = Some \<lparr>tq_ref = i, tq_name = n, tq_input = inp\<rparr>,
           toolResponse = None\<rparr>
      | _ \<Rightarrow>
          \<lparr>text_field = block_text contentBlock, media = None,
           toolRequest = None, toolResponse = None\<rparr>)"

section \<open>Message sequence converter\<close>

record anthropic_messages =
  am_system :: "string option"
  am_messages :: "message_param list"

text \<open>\<open>msg.content.map(toAnthropicMessageContent)\<close>: the first part that throws ends the map.\<close>

fun map_content :: "part list \<Rightarrow> error + block list" where
  "map_content [] = Inr []"
| "map_content (p # ps) =
     (case toAnthropicMessageContent p of
        Inl e \<Rightarrow> Inl e
      | Inr b \<Rightarrow> (case map_content ps of Inl e \<Rightarrow> Inl e | Inr bs \<Rightarrow> Inr (b # bs)))"

definition is_tool_block :: "block \<Rightarrow> bool" where
  "is_tool_block c = (block_type c = ''tool_use'' \<or> block_type c = ''tool_result'')"

text \<open>
  The \<open>for\<close> loop of \<open>toAnthropicMessages\<close>, with \<open>anthropicMsgs\<close> as
  accumulator.  The content of \<open>new GenkitMessage(message)\<close> is the list of parts of
  the message.
\<close>

fun toAnthropicMessages_loop ::
  "message_data list \<Rightarrow> message_param list \<Rightarrow> error + message_param list" where
  "toAnthropicMessages_loop [] anthropicMsgs = Inr anthropicMsgs"
| "toAnthropicMessages_loop (message # rest) anthropicMsgs =
     (case map_content (content message) of
        Inl e \<Rightarrow> Inl e
      | Inr c \<Rightarrow>
          (let toolMessageType = find is_tool_block c in
           case toAnthropicRole (role message) (map_option block_type toolMessageType) of
             Inl e \<Rightarrow> Inl e
           | Inr r \<Rightarrow>
               toAnthropicMessages_loop rest
                 (anthropicMsgs @ [\<lparr>mp_role = r, mp_content = c\<rparr>])))"

text \<open>\<open>messages[0]?.role === 'system' ? messages[0].content?.[0]?.text : undefined\<close>\<close>

definition system_of :: "message_data list \<Rightarrow> string option" where
  "system_of msgs =
     (case msgs of
        [] \<Rightarrow> None
      | m # _ \<Rightarrow>
          if role m = ''system''
          then (case content m of [] \<Rightarrow> None | p # _ \<Rightarrow> text_field p)
          else None)"

text \<open>\<open>system ? messages.slice(1) : messages\<close>\<close>

definition messagesToIterate :: "message_data list \<Rightarrow> message_data list" where
  "messagesToIterate msgs = (if truthy_string (system_of msgs) then drop 1 msgs else msgs)"

definition toAnthropicMessages :: "message_data list \<Rightarrow> error + anthropic_messages" where
  "toAnthropicMessages msgs =
     (case toAnthropicMessages_loop (messagesToIterate msgs) [] of
        Inl e \<Rightarrow> Inl e
      | Inr ms \<Rightarrow> Inr \<lparr>am_system = system_of msgs, am_messages = ms\<rparr>)"

section \<open>Tool definitions\<close>

record tool_definition =
  td_name :: string
  td_description :: string
  td_inputSchema :: json

record tool =
  tool_name :: string
  tool_description :: string
  tool_input_schema :: json

definition toAnthropicTool :: "tool_definition \<Rightarrow> tool" where
  "toAnthropicTool t =
     \<lparr>tool_name = td_name t, tool_description = td_description t,
      tool_input_schema = td_inputSchema t\<rparr>"

section \<open>Request body builder\<close>

text \<open>
  \<open>SUPPORTED_CLAUDE_MODELS\<close> is a plain object: besides its four own properties, an
  index with the name of a property of \<open>Object.prototype\<close> reads an inherited function
  or object, which is truthy and has no \<open>version\<close>.
\<close>

datatype registry_value = ModelRef string | Inherited

definition SUPPORTED_CLAUDE_MODELS :: "(string \<times> registry_value) list" where
  "SUPPORTED_CLAUDE_MODELS =
     [(''claude-3-5-sonnet'', ModelRef ''claude-3-5-sonnet-20240620''),
      (''claude-3-opus'', ModelRef ''claude-3-opus-20240229''),
      (''claude-3-sonnet'', ModelRef ''claude-3-sonnet-20240229''),
      (''claude-3-haiku'', ModelRef ''claude-3-haiku-20240307'')]"

definition Object_prototype_properties :: "string list" where
  "Object_prototype_properties =
     [''constructor'', ''__defineGetter__'', ''__defineSetter__'', ''hasOwnProperty'',
      ''__lookupGetter__'', ''__lookupSetter__'', ''isPrototypeOf'',
      ''propertyIsEnumerable'', ''toString'', ''valueOf'', ''__proto__'',
      ''toLocaleString'']"

definition lookup_model :: "string \<Rightarrow> registry_value option" where
  "lookup_model modelName =
     (case map_of SUPPORTED_CLAUDE_MODELS modelName of
        Some m \<Rightarrow> Some m
      | None \<Rightarrow> if modelName \<in> set Object_prototype_properties then Some Inherited else None)"

fun model_version :: "registry_value \<Rightarrow> json" where
  "model_version (ModelRef v) = JStr v"
| "model_version Inherited = JUndefined"

record config =
  version :: json
  maxOutputTokens :: json
  topK :: json
  topP :: json
  temperature :: json
  stopSequences :: json
  metadata :: json
  tool_choice :: json

record output_spec =
  format :: "string option"

record generate_request =
  rq_messages :: "message_data list"
  rq_tools :: "tool_definition list option"
  rq_config :: "config option"
  rq_output :: "output_spec option"

text \<open>\<open>request.config?.f\<close>\<close>

definition config_field :: "generate_request \<Rightarrow> (config \<Rightarrow> json) \<Rightarrow> json" where
  "config_field request f = (case rq_config request of None \<Rightarrow> JUndefined | Some c \<Rightarrow> f c)"

text \<open>\<open>request.output?.format\<close>\<close>

definition output_format :: "generate_request \<Rightarrow> string option" where
  "output_format request = (case rq_output request of None \<Rightarrow> None | Some ou \<Rightarrow> format ou)"

text \<open>
  The values held by the request body: a dynamically typed value, the array of provider
  messages, or the array of provider tools.  The body is the list of its properties in
  the order the object literal creates them.
\<close>

datatype body_value =
    Val json
  | MessageList "message_param list"
  | ToolList "tool list"

type_synonym body = "(string \<times> body_value) list"

fun falsy :: "json \<Rightarrow> bool" where
  "falsy JUndefined = True"
| "falsy JNull = True"
| "falsy (JBool b) = (\<not> b)"
| "falsy (JNum i) = (i = 0)"
| "falsy (JStr s) = (s = [])"
| "falsy (JArr xs) = False"
| "falsy (JObj ps) = False"

text \<open>\<open>!v\<close>\<close>

fun not_value :: "body_value \<Rightarrow> bool" where
  "not_value (Val j) = falsy j"
| "not_value (MessageList ms) = False"
| "not_value (ToolList ts) = False"

text \<open>\<open>Array.isArray(v) && !v.length\<close>\<close>

fun empty_array :: "body_value \<Rightarrow> bool" where
  "empty_array (Val j) = (j = JArr [])"
| "empty_array (MessageList ms) = (ms = [])"
| "empty_array (ToolList ts) = (ts = [])"

text \<open>\<open>body[key]\<close>\<close>

definition body_get :: "body \<Rightarrow> string \<Rightarrow> body_value" where
  "body_get b k = (case map_of b k of None \<Rightarrow> Val JUndefined | Some v \<Rightarrow> v)"

text \<open>The \<open>for (const key in body)\<close> loop over the keys the body has when the loop starts.\<close>

fun strip_loop :: "string list \<Rightarrow> body \<Rightarrow> body" where
  "strip_loop [] b = b"
| "strip_loop (k # ks) b =
     strip_loop ks
       (if not_value (body_get b k) \<or> empty_array (body_get b k)
        then AList.delete k b else b)"

text \<open>
  The object literal bound to \<open>body\<close>, with \<open>mappedModelName\<close>: every key is
  created, also when its value is \<open>undefined\<close>.
\<close>

definition initial_body ::
  "string \<Rightarrow> registry_value \<Rightarrow> generate_request \<Rightarrow> anthropic_messages
     \<Rightarrow> bool option \<Rightarrow> body" where
  "initial_body modelName model request am stream =
     (let mappedModelName =
            coalesce (config_field request version)
              (coalesce (model_version model) (JStr modelName))
      in [(''system'', Val (case am_system am of None \<Rightarrow> JUndefined | Some s \<Rightarrow> JStr s)),
          (''messages'', MessageList (am_messages am)),
          (''tools'',
             (case rq_tools request of
                None \<Rightarrow> Val JUndefined
              | Some ts \<Rightarrow> ToolList (map toAnthropicTool ts))),
          (''max_tokens'', Val (coalesce (config_field request maxOutputTokens) (JNum 4096))),
          (''model'', Val mappedModelName),
          (''top_k'', Val (config_field request topK)),
          (''top_p'', Val (config_field request topP)),
          (''temperature'', Val (config_field request temperature)),
          (''stop_sequences'', Val (config_field request stopSequences)),
          (''metadata'', Val (config_field request metadata)),
          (''tool_choice'', Val (config_field request tool_choice)),
          (''stream'', Val (case stream of None \<Rightarrow> JUndefined | Some s \<Rightarrow> JBool s))])"

definition toAnthropicRequestBody ::
  "string \<Rightarrow> generate_request \<Rightarrow> bool option \<Rightarrow> error + body" where
  "toAnthropicRequestBody modelName request stream =
     (case lookup_model modelName of
        None \<Rightarrow> Inl (UnsupportedModel modelName)
      | Some model \<Rightarrow>
          (case toAnthropicMessages (rq_messages request) of
             Inl e \<Rightarrow> Inl e
           | Inr am \<Rightarrow>
               (let b = initial_body modelName model request am stream
                in if truthy_string (output_format request)
                      \<and> output_format request \<noteq> Some ''text''
                   then Inl UnsupportedOutputFormat
                   else Inr (strip_loop (map fst b) b))))"

section \<open>Vocabulary of the statements\<close>

text \<open>The four kinds of Genkit part carrying one tag only.\<close>

definition TextPart :: "string \<Rightarrow> part" where
  "TextPart t =
     \<lparr>text_field = Some t, media = None, toolRequest = None, toolResponse = None\<rparr>"

definition MediaPart :: "media_part \<Rightarrow> part" where
  "MediaPart m =
     \<lparr>text_field = None, media = Some m, toolRequest = None, toolResponse = None\<rparr>"

definition ToolRequestPart :: "tool_request \<Rightarrow> part" where
  "ToolRequestPart r =
     \<lparr>text_field = None, media = None, toolRequest = Some r, toolResponse = None\<rparr>"

definition ToolResponsePart :: "tool_response \<Rightarrow> part" where
  "ToolResponsePart r =
     \<lparr>text_field = None, media = None, toolRequest = None, toolResponse = Some r\<rparr>"

text \<open>The number of tags a part has set.\<close>

definition tag_count :: "part \<Rightarrow> nat" where
  "tag_count p =
     (if text_field p = None then 0 else 1) + (if media p = None then 0 else 1)
     + (if toolRequest p = None then 0 else 1) + (if toolResponse p = None then 0 else 1)"

text \<open>
  The part reduced to the tag that comes first in the order text, media, toolRequest,
  toolResponse.
\<close>

definition highest_priority_tag :: "part \<Rightarrow> part" where
  "highest_priority_tag p =
     (if text_field p \<noteq> None
      then p\<lparr>media := None, toolRequest := None, toolResponse := None\<rparr>
      else if media p \<noteq> None then p\<lparr>toolRequest := None, toolResponse := None\<rparr>
      else if toolRequest p \<noteq> None then p\<lparr>toolResponse := None\<rparr>
      else p)"


text \<open>
  What one turn of the loop of \<open>toAnthropicMessages\<close> pushes for a message: its
  converted content, with the role computed from the first tool block of that content.
\<close>

definition message_converted :: "message_data \<Rightarrow> message_param \<Rightarrow> bool" where
  "message_converted m mp \<longleftrightarrow>
     map_content (content m) = Inr (mp_content mp)
     \<and> toAnthropicRole (role m) (map_option block_type (find is_tool_block (mp_content mp)))
         = Inr (mp_role mp)"

section \<open>JSON texts\<close>

text \<open>
  The value a JSON text can carry for a JavaScript value: an \<open>undefined\<close> element of
  an array is carried as \<open>null\<close> and a property whose value is \<open>undefined\<close> is
  not carried.
\<close>

fun serialized_value :: "json \<Rightarrow> json"
and serialized_elements :: "json list \<Rightarrow> json list"
and serialized_properties :: "(string \<times> json) list \<Rightarrow> (string \<times> json) list" where
  "serialized_value (JArr xs) = JArr (serialized_elements xs)"
| "serialized_value (JObj ps) = JObj (serialized_properties ps)"
| "serialized_value JUndefined = JUndefined"
| "serialized_value JNull = JNull"
| "serialized_value (JBool b) = JBool b"
| "serialized_value (JNum n) = JNum n"
| "serialized_value (JStr s) = JStr s"
| "serialized_elements [] = []"
| "serialized_elements (x # xs) =
     (if x = JUndefined then JNull else serialized_value x) # serialized_elements xs"
| "serialized_properties [] = []"
| "serialized_properties ((k, v) # ps) =
     (if v = JUndefined then serialized_properties ps
      else (k, serialized_value v) # serialized_properties ps)"








section \<open>Data URLs: two evaluations\<close>

lemma extract_png:
  "extractDataFromBase64Url ''data:image/png;base64,AAAA''
     = Some \<lparr>b64_contentType = ''image/png'', b64_data = ''AAAA''\<rparr>"
  by (simp add: extractDataFromBase64Url_def line_terminator_def)

lemma extract_https:
  "extractDataFromBase64Url ''https://example.com/cat.png'' = None"
  by (simp add: extractDataFromBase64Url_def)

section \<open>The role mapper\<close>

text \<open>
  Claim C5.  \<open>toAnthropicRole\<close> maps \<open>user\<close> to \<open>user\<close> and \<open>model\<close> to
  \<open>assistant\<close>; it maps \<open>tool\<close> to \<open>assistant\<close> exactly when the hint is
  \<open>tool_use\<close> and to \<open>user\<close> otherwise, also when the hint is absent; on every
  other role it throws.
\<close>

theorem toAnthropicRole_contract:
  "toAnthropicRole ''user'' hint = Inr ''user''
   \<and> toAnthropicRole ''model'' hint = Inr ''assistant''
   \<and> (toAnthropicRole ''tool'' hint = Inr ''assistant'' \<longleftrightarrow> hint = Some ''tool_use'')
   \<and> (hint \<noteq> Some ''tool_use'' \<longrightarrow> toAnthropicRole ''tool'' hint = Inr ''user'')
   \<and> (r \<noteq> ''user'' \<and> r \<noteq> ''model'' \<and> r \<noteq> ''tool''
        \<longrightarrow> toAnthropicRole r hint = Inl (UnsupportedRole r))"
  by (simp add: toAnthropicRole_def)

theorem toAnthropicRole_contract_witness:
  "toAnthropicRole ''tool'' None = Inr ''user''
   \<and> toAnthropicRole ''tool'' (Some ''tool_result'') = Inr ''user''
   \<and> toAnthropicRole ''tool'' (Some ''tool_use'') = Inr ''assistant''
   \<and> toAnthropicRole ''system'' None = Inl (UnsupportedRole ''system'')"
  using toAnthropicRole_contract [of None "''system''"]
    toAnthropicRole_contract [of "Some ''tool_result''" "''system''"]
    toAnthropicRole_contract [of "Some ''tool_use''" "''system''"]
  by simp

section \<open>Outbound conversion of one part\<close>

lemma toAnthropicToolResponseContent_total:
  "toolResponse p = Some tr \<Longrightarrow> \<exists>b. toAnthropicToolResponseContent p = Inr b"
  by (simp add: toAnthropicToolResponseContent_def Let_def split: option.split)

text \<open>
  Claim C3, as stated, fails: a part whose only tag is \<open>media\<close> and whose url is not a
  base64 data URL makes \<open>toAnthropicMessageContent\<close> throw.
\<close>

theorem media_part_throws:
  "tag_count (MediaPart \<lparr>url = ''https://example.com/cat.png'', contentType = Some ''image/png''\<rparr>) = 1
   \<and> toAnthropicMessageContent
        (MediaPart \<lparr>url = ''https://example.com/cat.png'', contentType = Some ''image/png''\<rparr>)
       = Inl (InvalidMedia \<lparr>url = ''https://example.com/cat.png'', contentType = Some ''image/png''\<rparr>)"
  by (simp add: toAnthropicMessageContent_def MediaPart_def truthy_string_def extract_https
      tag_count_def)

text \<open>
  Claim C3, amended.  On a part with exactly one tag set, a text tag being a string
  that is not empty, \<open>toAnthropicMessageContent\<close> returns a content block unless the
  tag is \<open>media\<close> and its url does not match \<open>data:<mime>;base64,<payload>\<close>; then,
  and only then, it throws.
\<close>

theorem toAnthropicMessageContent_returns_iff:
  assumes "tag_count p = 1" and "text_field p \<noteq> Some []"
  shows "(\<exists>b. toAnthropicMessageContent p = Inr b)
           \<longleftrightarrow> (\<forall>m. media p = Some m \<longrightarrow> extractDataFromBase64Url (url m) \<noteq> None)"
  using assms toAnthropicToolResponseContent_total [of p]
  by (auto simp add: toAnthropicMessageContent_def truthy_string_def tag_count_def
      split: option.splits if_splits)

theorem toAnthropicMessageContent_returns_iff_witness:
  "tag_count (MediaPart \<lparr>url = ''data:image/png;base64,AAAA'', contentType = None\<rparr>) = 1
   \<and> text_field (MediaPart \<lparr>url = ''data:image/png;base64,AAAA'', contentType = None\<rparr>) \<noteq> Some []
   \<and> (\<exists>b. toAnthropicMessageContent
              (MediaPart \<lparr>url = ''data:image/png;base64,AAAA'', contentType = None\<rparr>) = Inr b)"
proof -
  let ?p = "MediaPart \<lparr>url = ''data:image/png;base64,AAAA'', contentType = None\<rparr>"
  have c: "tag_count ?p = 1" by (simp add: tag_count_def MediaPart_def)
  have t: "text_field ?p \<noteq> Some []" by (simp add: MediaPart_def)
  have m: "\<forall>m. media ?p = Some m \<longrightarrow> extractDataFromBase64Url (url m) \<noteq> None"
    by (simp add: MediaPart_def extract_png)
  from toAnthropicMessageContent_returns_iff [OF c t] m c t show ?thesis by blast
qed

text \<open>
  Claim C4, as stated, fails: a tool request without a \<open>ref\<close> raises no error, it is
  converted to a \<open>tool_use\<close> block whose id is undefined.
\<close>

theorem toolRequest_without_ref_converts:
  "toAnthropicMessageContent
     (ToolRequestPart \<lparr>tq_ref = None, tq_name = ''lookup'', tq_input = JObj [(''q'', JStr ''x'')]\<rparr>)
   = Inr (ToolUseBlock None ''lookup'' (JObj [(''q'', JStr ''x'')]))"
  by (simp add: toAnthropicMessageContent_def ToolRequestPart_def truthy_string_def)

text \<open>
  Claim C4, amended.  On a part whose only set tag is \<open>toolRequest\<close>, the conversion
  returns a \<open>tool_use\<close> block with the request's \<open>ref\<close> as id (undefined when the
  request has none), the same name and the request's input; it never throws.
\<close>

theorem toolRequest_to_tool_use:
  assumes "text_field p = None" and "media p = None" and "toolRequest p = Some r"
    and "toolResponse p = None"
  shows "toAnthropicMessageContent p = Inr (ToolUseBlock (tq_ref r) (tq_name r) (tq_input r))"
  using assms by (simp add: toAnthropicMessageContent_def truthy_string_def)

theorem toolRequest_to_tool_use_witness:
  "toAnthropicMessageContent
     (ToolRequestPart \<lparr>tq_ref = Some ''toolu_1'', tq_name = ''lookup'', tq_input = JObj []\<rparr>)
   = Inr (ToolUseBlock (Some ''toolu_1'') ''lookup'' (JObj []))"
  using toolRequest_to_tool_use
    [of "ToolRequestPart \<lparr>tq_ref = Some ''toolu_1'', tq_name = ''lookup'', tq_input = JObj []\<rparr>"
        "\<lparr>tq_ref = Some ''toolu_1'', tq_name = ''lookup'', tq_input = JObj []\<rparr>"]
  by (simp add: ToolRequestPart_def)

section \<open>The serialiser writes JSON texts\<close>














lemma serialized_elements_empty: "serialized_elements xs = [] \<longleftrightarrow> xs = []"
  by (cases xs) simp_all




text \<open>
  Claim C9, as stated, fails: a part with two tags set can make the conversion throw,
  namely when the tag that wins is \<open>media\<close> and its url is not a base64 data URL.
\<close>

theorem two_tags_media_throws:
  "1 < tag_count
         \<lparr>text_field = None,
          media = Some \<lparr>url = ''https://example.com/cat.png'', contentType = None\<rparr>,
          toolRequest = Some \<lparr>tq_ref = Some ''toolu_1'', tq_name = ''lookup'', tq_input = JObj []\<rparr>,
          toolResponse = None\<rparr>
   \<and> toAnthropicMessageContent
         \<lparr>text_field = None,
          media = Some \<lparr>url = ''https://example.com/cat.png'', contentType = None\<rparr>,
          toolRequest = Some \<lparr>tq_ref = Some ''toolu_1'', tq_name = ''lookup'', tq_input = JObj []\<rparr>,
          toolResponse = None\<rparr>
       = Inl (InvalidMedia \<lparr>url = ''https://example.com/cat.png'', contentType = None\<rparr>)"
  by (simp add: toAnthropicMessageContent_def truthy_string_def tag_count_def extract_https)

text \<open>
  Claim C9, amended.  On a part with more than one tag set (a text tag being a string
  that is not empty), \<open>toAnthropicMessageContent\<close> gives exactly what it gives on the
  part reduced to its first tag in the order text, media, toolRequest, toolResponse:
  the other tags are ignored and raise no error.  The conversion throws only when the
  tag that wins is \<open>media\<close> and its url is not a base64 data URL.
\<close>

theorem toAnthropicMessageContent_priority:
  assumes "1 < tag_count p" and "text_field p \<noteq> Some []"
  shows "toAnthropicMessageContent p = toAnthropicMessageContent (highest_priority_tag p)
       \<and> tag_count (highest_priority_tag p) = 1
       \<and> (\<forall>e. toAnthropicMessageContent p = Inl e \<longrightarrow>
            (\<exists>m. text_field p = None \<and> media p = Some m
                 \<and> extractDataFromBase64Url (url m) = None \<and> e = InvalidMedia m))"
  using assms
  by (auto simp add: toAnthropicMessageContent_def truthy_string_def tag_count_def
      highest_priority_tag_def split: option.splits if_splits)

theorem toAnthropicMessageContent_priority_witness:
  "1 < tag_count
         \<lparr>text_field = Some ''hello'',
          media = Some \<lparr>url = ''https://example.com/cat.png'', contentType = None\<rparr>,
          toolRequest = Some \<lparr>tq_ref = Some ''toolu_1'', tq_name = ''lookup'', tq_input = JObj []\<rparr>,
          toolResponse = None\<rparr>
   \<and> toAnthropicMessageContent
         \<lparr>text_field = Some ''hello'',
          media = Some \<lparr>url = ''https://example.com/cat.png'', contentType = None\<rparr>,
          toolRequest = Some \<lparr>tq_ref = Some ''toolu_1'', tq_name = ''lookup'', tq_input = JObj []\<rparr>,
          toolResponse = None\<rparr>
       = toAnthropicMessageContent (TextPart ''hello'')
   \<and> toAnthropicMessageContent (TextPart ''hello'') = Inr (TextBlock (Some ''hello''))"
proof -
  let ?p = "\<lparr>text_field = Some ''hello'',
          media = Some \<lparr>url = ''https://example.com/cat.png'', contentType = None\<rparr>,
          toolRequest = Some \<lparr>tq_ref = Some ''toolu_1'', tq_name = ''lookup'', tq_input = JObj []\<rparr>,
          toolResponse = None\<rparr>"
  have c: "1 < tag_count ?p" by (simp add: tag_count_def)
  have t: "text_field ?p \<noteq> Some []" by simp
  have h: "highest_priority_tag ?p = TextPart ''hello''"
    by (simp add: highest_priority_tag_def TextPart_def)
  have r: "toAnthropicMessageContent (TextPart ''hello'') = Inr (TextBlock (Some ''hello''))"
    by (simp add: toAnthropicMessageContent_def TextPart_def truthy_string_def)
  from toAnthropicMessageContent_priority [OF c t] h c r show ?thesis by simp
qed

section \<open>The tool-response converter\<close>







section \<open>The message sequence converter\<close>

lemma toAnthropicMessages_loop_converted:
  "toAnthropicMessages_loop ms acc = Inr out \<Longrightarrow>
     \<exists>new. out = acc @ new \<and> list_all2 message_converted ms new"
proof (induction ms arbitrary: acc)
  case Nil
  then show ?case by simp
next
  case (Cons m ms)
  from Cons.prems obtain c r where
    c: "map_content (content m) = Inr c" and
    r: "toAnthropicRole (role m) (map_option block_type (find is_tool_block c)) = Inr r" and
    rest: "toAnthropicMessages_loop ms (acc @ [\<lparr>mp_role = r, mp_content = c\<rparr>]) = Inr out"
    by (auto simp add: Let_def split: sum.splits)
  from Cons.IH [OF rest] obtain new where
    new: "out = (acc @ [\<lparr>mp_role = r, mp_content = c\<rparr>]) @ new"
      "list_all2 message_converted ms new"
    by blast
  have "message_converted m \<lparr>mp_role = r, mp_content = c\<rparr>"
    using c r by (simp add: message_converted_def)
  with new show ?case by auto
qed

lemma toAnthropicMessages_converted:
  "toAnthropicMessages msgs = Inr res \<Longrightarrow>
     am_system res = system_of msgs
     \<and> list_all2 message_converted (messagesToIterate msgs) (am_messages res)"
  using toAnthropicMessages_loop_converted [of "messagesToIterate msgs" "[]"]
  by (auto simp add: toAnthropicMessages_def split: sum.splits)

lemma tool_role_of_converted:
  "message_converted m mp \<Longrightarrow> role m = ''tool'' \<Longrightarrow>
   mp_role mp =
     (if map_option block_type (find is_tool_block (mp_content mp)) = Some ''tool_use''
      then ''assistant'' else ''user'')"
  by (auto simp add: message_converted_def toAnthropicRole_def split: if_splits)

lemma system_role_not_converted: "role m = ''system'' \<Longrightarrow> \<not> message_converted m mp"
  by (simp add: message_converted_def toAnthropicRole_def)
text \<open>
  Claim C2, as stated, fails: a \<open>tool\<close> message whose converted content holds a
  \<open>tool_result\<close> block before a \<open>tool_use\<close> block is given the role \<open>user\<close>,
  although its content contains a \<open>tool_use\<close> block.
\<close>

theorem tool_result_before_tool_use_is_user:
  "toAnthropicMessages
     [\<lparr>role = ''tool'',
       content =
         [ToolResponsePart \<lparr>ts_ref = Some ''toolu_1'', ts_name = ''f'', ts_output = JStr ''ok''\<rparr>,
          ToolRequestPart \<lparr>tq_ref = Some ''toolu_2'', tq_name = ''g'', tq_input = JObj []\<rparr>]\<rparr>]
   = Inr \<lparr>am_system = None,
          am_messages =
            [\<lparr>mp_role = ''user'',
              mp_content =
                [ToolResultBlock (Some ''toolu_1'') [TextBlock (Some ''ok'')],
                 ToolUseBlock (Some ''toolu_2'') ''g'' (JObj [])]\<rparr>]\<rparr>"
  by (simp add: toAnthropicMessages_def messagesToIterate_def system_of_def truthy_string_def
      toAnthropicMessageContent_def toAnthropicToolResponseContent_def ToolResponsePart_def
      ToolRequestPart_def extractDataFromBase64Url_def is_tool_block_def toAnthropicRole_def)

text \<open>
  Claim C2, amended.  Whenever \<open>toAnthropicMessages\<close> returns, each message it
  iterates over yields, in order, one provider message holding the message's converted
  content; for a message with role \<open>tool\<close> the provider role is \<open>assistant\<close>
  exactly when the first block of type \<open>tool_use\<close> or \<open>tool_result\<close> in that
  converted content is a \<open>tool_use\<close> block, and \<open>user\<close> otherwise (also when
  there is no such block).
\<close>

theorem tool_role_from_first_tool_block:
  assumes "toAnthropicMessages msgs = Inr res"
  shows "list_all2
           (\<lambda>m mp. map_content (content m) = Inr (mp_content mp)
              \<and> (role m = ''tool'' \<longrightarrow>
                   mp_role mp =
                     (if map_option block_type (find is_tool_block (mp_content mp))
                           = Some ''tool_use''
                      then ''assistant'' else ''user'')))
           (messagesToIterate msgs) (am_messages res)"
proof -
  from toAnthropicMessages_converted [OF assms]
  have "list_all2 message_converted (messagesToIterate msgs) (am_messages res)" by simp
  then show ?thesis
    by (rule list_all2_mono) (auto simp add: tool_role_of_converted message_converted_def)
qed

theorem tool_role_from_first_tool_block_witness:
  "toAnthropicMessages
     [\<lparr>role = ''tool'',
       content =
         [ToolRequestPart \<lparr>tq_ref = Some ''toolu_2'', tq_name = ''g'', tq_input = JObj []\<rparr>,
          ToolResponsePart \<lparr>ts_ref = Some ''toolu_1'', ts_name = ''f'', ts_output = JStr ''ok''\<rparr>]\<rparr>]
   = Inr \<lparr>am_system = None,
          am_messages =
            [\<lparr>mp_role = ''assistant'',
              mp_content =
                [ToolUseBlock (Some ''toolu_2'') ''g'' (JObj []),
                 ToolResultBlock (Some ''toolu_1'') [TextBlock (Some ''ok'')]]\<rparr>]\<rparr>
   \<and> list_all2
        (\<lambda>m mp. map_content (content m) = Inr (mp_content mp)
           \<and> (role m = ''tool'' \<longrightarrow>
                mp_role mp =
                  (if map_option block_type (find is_tool_block (mp_content mp))
                        = Some ''tool_use''
                   then ''assistant'' else ''user'')))
        [\<lparr>role = ''tool'',
          content =
            [ToolRequestPart \<lparr>tq_ref = Some ''toolu_2'', tq_name = ''g'', tq_input = JObj []\<rparr>,
             ToolResponsePart \<lparr>ts_ref = Some ''toolu_1'', ts_name = ''f'', ts_output = JStr ''ok''\<rparr>]\<rparr>]
        [\<lparr>mp_role = ''assistant'',
          mp_content =
            [ToolUseBlock (Some ''toolu_2'') ''g'' (JObj []),
             ToolResultBlock (Some ''toolu_1'') [TextBlock (Some ''ok'')]]\<rparr>]"
proof -
  let ?msgs = "[\<lparr>role = ''tool'',
       content =
         [ToolRequestPart \<lparr>tq_ref = Some ''toolu_2'', tq_name = ''g'', tq_input = JObj []\<rparr>,
          ToolResponsePart \<lparr>ts_ref = Some ''toolu_1'', ts_name = ''f'', ts_output = JStr ''ok''\<rparr>]\<rparr>]"
  let ?res = "\<lparr>am_system = None,
          am_messages =
            [\<lparr>mp_role = ''assistant'',
              mp_content =
                [ToolUseBlock (Some ''toolu_2'') ''g'' (JObj []),
                 ToolResultBlock (Some ''toolu_1'') [TextBlock (Some ''ok'')]]\<rparr>]\<rparr>"
  have h: "toAnthropicMessages ?msgs = Inr ?res"
    by (simp add: toAnthropicMessages_def messagesToIterate_def system_of_def truthy_string_def
        toAnthropicMessageContent_def toAnthropicToolResponseContent_def ToolResponsePart_def
        ToolRequestPart_def extractDataFromBase64Url_def is_tool_block_def toAnthropicRole_def)
  have i: "messagesToIterate ?msgs = ?msgs"
    by (simp add: messagesToIterate_def system_of_def truthy_string_def)
  from tool_role_from_first_tool_block [OF h] have
    "list_all2
        (\<lambda>m mp. map_content (content m) = Inr (mp_content mp)
           \<and> (role m = ''tool'' \<longrightarrow>
                mp_role mp =
                  (if map_option block_type (find is_tool_block (mp_content mp))
                        = Some ''tool_use''
                   then ''assistant'' else ''user'')))
        (messagesToIterate ?msgs) (am_messages ?res)" .
  then show ?thesis unfolding i using h by simp
qed

text \<open>
  What holds of the system message whenever \<open>toAnthropicMessages\<close> returns: the first
  message has been taken as system string and left out of the provider messages if and
  only if its role is \<open>system\<close>, and then its first part carries a text that is not
  empty.
\<close>

lemma toAnthropicMessages_system_when_returns:
  assumes "toAnthropicMessages (m # rest) = Inr res"
  shows "(role m = ''system'' \<longrightarrow>
            (\<exists>p ps s. content m = p # ps \<and> text_field p = Some s \<and> s \<noteq> []
                      \<and> am_system res = Some s)
            \<and> list_all2 message_converted rest (am_messages res))
       \<and> (role m \<noteq> ''system'' \<longrightarrow>
            am_system res = None
            \<and> list_all2 message_converted (m # rest) (am_messages res))"
proof (cases "role m = ''system''")
  case False
  then have "system_of (m # rest) = None" by (simp add: system_of_def)
  with toAnthropicMessages_converted [OF assms] False show ?thesis
    by (simp add: messagesToIterate_def truthy_string_def)
next
  case True
  note conv = toAnthropicMessages_converted [OF assms]
  have t: "truthy_string (system_of (m # rest))"
  proof (rule ccontr)
    assume "\<not> truthy_string (system_of (m # rest))"
    then have "messagesToIterate (m # rest) = m # rest" by (simp add: messagesToIterate_def)
    with conv obtain mp where "message_converted m mp" by (auto simp add: list_all2_Cons1)
    with True show False by (simp add: system_role_not_converted)
  qed
  then have "messagesToIterate (m # rest) = rest" by (simp add: messagesToIterate_def)
  with conv t True show ?thesis
    by (auto simp add: system_of_def truthy_string_def split: list.splits option.splits)
qed

text \<open>The example of the specification: a system message followed by a user message.\<close>

lemma toAnthropicMessages_system_example:
  "toAnthropicMessages
     [\<lparr>role = ''system'', content = [TextPart ''S'']\<rparr>,
      \<lparr>role = ''user'', content = [TextPart ''hi'']\<rparr>]
   = Inr \<lparr>am_system = Some ''S'',
          am_messages = [\<lparr>mp_role = ''user'', mp_content = [TextBlock (Some ''hi'')]\<rparr>]\<rparr>"
  by (simp add: toAnthropicMessages_def messagesToIterate_def system_of_def truthy_string_def
      toAnthropicMessageContent_def TextPart_def is_tool_block_def toAnthropicRole_def)

text \<open>
  Claim C1 against the code: a first message with role \<open>system\<close> whose text is the
  empty string is neither taken as system string nor left out.  The loop converts it as
  any other message and the conversion throws.  With no part at all the system message
  reaches the role mapper, which rejects the role \<open>system\<close>.
\<close>

theorem empty_system_text_throws:
  "toAnthropicMessages
     [\<lparr>role = ''system'', content = [TextPart '''']\<rparr>,
      \<lparr>role = ''user'', content = [TextPart ''hi'']\<rparr>]
   = Inl (UnsupportedPart (TextPart ''''))
   \<and> toAnthropicMessages
       [\<lparr>role = ''system'', content = []\<rparr>,
        \<lparr>role = ''user'', content = [TextPart ''hi'']\<rparr>]
     = Inl (UnsupportedRole ''system'')"
  by (simp add: toAnthropicMessages_def messagesToIterate_def system_of_def truthy_string_def
      toAnthropicMessageContent_def TextPart_def is_tool_block_def toAnthropicRole_def)

section \<open>Round trip through the inbound converter\<close>

lemma text_round_trip:
  assumes "t \<noteq> []"
  shows "map_sum id fromAnthropicContentBlock (toAnthropicMessageContent (TextPart t))
           = Inr (TextPart t)"
  using assms
  by (simp add: toAnthropicMessageContent_def fromAnthropicContentBlock_def TextPart_def
      truthy_string_def)

lemma toolRequest_round_trip:
  "map_sum id fromAnthropicContentBlock (toAnthropicMessageContent (ToolRequestPart r))
     = Inr (ToolRequestPart r)"
  by (simp add: toAnthropicMessageContent_def fromAnthropicContentBlock_def
      ToolRequestPart_def truthy_string_def)

text \<open>
  Claim C8 against the code: the part whose only tag is the empty text is not converted,
  so there is nothing to convert back; \<open>toAnthropicMessageContent\<close> throws on it.  The
  inbound converter itself produces this part from a text block with empty text.
\<close>

theorem empty_text_part_throws:
  "tag_count (TextPart '''') = 1
   \<and> toAnthropicMessageContent (TextPart '''') = Inl (UnsupportedPart (TextPart ''''))
   \<and> fromAnthropicContentBlock (TextBlock (Some '''')) = TextPart ''''"
  by (simp add: toAnthropicMessageContent_def fromAnthropicContentBlock_def TextPart_def
      truthy_string_def tag_count_def)
section \<open>The request body builder\<close>

lemma strip_loop_subset: "set (strip_loop ks b) \<subseteq> set b"
proof (induction ks arbitrary: b)
  case Nil
  show ?case by simp
next
  case (Cons k ks)
  have "set (AList.delete k b) \<subseteq> set b" by (auto simp add: AList.delete_eq)
  with Cons.IH [of "AList.delete k b"] Cons.IH [of b] show ?case by auto
qed

lemma strip_loop_distinct: "distinct (map fst b) \<Longrightarrow> distinct (map fst (strip_loop ks b))"
  by (induction ks arbitrary: b) (simp_all add: distinct_delete)

lemma strip_loop_kept:
  "distinct (map fst b) \<Longrightarrow> (k, v) \<in> set (strip_loop ks b) \<Longrightarrow> k \<in> set ks
     \<Longrightarrow> \<not> not_value v \<and> \<not> empty_array v"
proof (induction ks arbitrary: b)
  case Nil
  then show ?case by simp
next
  case (Cons k0 ks)
  let ?del = "not_value (body_get b k0) \<or> empty_array (body_get b k0)"
  let ?b = "if ?del then AList.delete k0 b else b"
  have d: "distinct (map fst ?b)" using Cons.prems(1) by (simp add: distinct_delete)
  have m: "(k, v) \<in> set (strip_loop ks ?b)" using Cons.prems(2) by simp
  show ?case
  proof (cases "k \<in> set ks")
    case True
    from Cons.IH [OF d m True] show ?thesis .
  next
    case False
    with Cons.prems(3) have k: "k = k0" by simp
    from m strip_loop_subset have in_b: "(k0, v) \<in> set ?b" using k by blast
    show ?thesis
    proof (cases ?del)
      case True
      then have "(k0, v) \<in> set (AList.delete k0 b)" using in_b by simp
      then show ?thesis by (simp add: AList.delete_eq)
    next
      case False
      then have "(k0, v) \<in> set b" using in_b by simp
      with Cons.prems(1) have "map_of b k0 = Some v" by simp
      then have "body_get b k0 = v" by (simp add: body_get_def)
      with False show ?thesis by simp
    qed
  qed
qed

lemma strip_loop_all_keys:
  assumes "distinct (map fst b)" and "(k, v) \<in> set (strip_loop (map fst b) b)"
  shows "(k, v) \<in> set b \<and> \<not> not_value v \<and> \<not> empty_array v"
proof -
  from assms(2) strip_loop_subset have i: "(k, v) \<in> set b" by blast
  then have "k \<in> set (map fst b)" by force
  from strip_loop_kept [OF assms this] i show ?thesis by simp
qed

text \<open>The body before the stripping loop, when the builder returns.\<close>

lemma toAnthropicRequestBody_returns:
  assumes "toAnthropicRequestBody modelName request stream = Inr b"
  obtains model am where
    "lookup_model modelName = Some model"
    "toAnthropicMessages (rq_messages request) = Inr am"
    "b = strip_loop (map fst (initial_body modelName model request am stream))
           (initial_body modelName model request am stream)"
  using assms
  by (auto simp add: toAnthropicRequestBody_def Let_def
      split: option.splits sum.splits if_splits)

lemma initial_body_keys:
  "map fst (initial_body modelName model request am stream)
     = [''system'', ''messages'', ''tools'', ''max_tokens'', ''model'', ''top_k'', ''top_p'',
        ''temperature'', ''stop_sequences'', ''metadata'', ''tool_choice'', ''stream'']"
  by (simp add: initial_body_def)

lemma initial_body_distinct:
  "distinct (map fst (initial_body modelName model request am stream))"
  unfolding initial_body_keys by simp

lemma initial_body_top_k:
  "(''top_k'', v) \<in> set (initial_body modelName model request am stream)
     \<Longrightarrow> v = Val (config_field request topK)"
  by (simp add: initial_body_def)

lemma initial_body_max_tokens:
  "(''max_tokens'', v) \<in> set (initial_body modelName model request am stream)
     \<Longrightarrow> v = Val (coalesce (config_field request maxOutputTokens) (JNum 4096))"
  by (simp add: initial_body_def)

lemma strip_loop_filter:
  "distinct (map fst b) \<Longrightarrow>
     strip_loop ks b = filter (\<lambda>(k, v). k \<notin> set ks \<or> \<not> (not_value v \<or> empty_array v)) b"
proof (induction ks arbitrary: b)
  case Nil
  show ?case by simp
next
  case (Cons k0 ks)
  let ?del = "\<lambda>v. not_value v \<or> empty_array v"
  have get: "body_get b k0 = v" if "(k0, v) \<in> set b" for v
    using that Cons.prems by (simp add: body_get_def)
  show ?case
  proof (cases "?del (body_get b k0)")
    case True
    have d: "distinct (map fst (AList.delete k0 b))" using Cons.prems by (simp add: distinct_delete)
    have "strip_loop (k0 # ks) b = strip_loop ks (AList.delete k0 b)" using True by simp
    also have "\<dots> = filter (\<lambda>(k, v). k \<notin> set ks \<or> \<not> ?del v) (AList.delete k0 b)"
      by (rule Cons.IH [OF d])
    also have "\<dots> = filter (\<lambda>(k, v). k \<notin> set (k0 # ks) \<or> \<not> ?del v) b"
      unfolding AList.delete_eq filter_filter
      by (rule filter_cong) (use True get in auto)
    finally show ?thesis .
  next
    case False
    have "strip_loop (k0 # ks) b = strip_loop ks b" using False by simp
    also have "\<dots> = filter (\<lambda>(k, v). k \<notin> set ks \<or> \<not> ?del v) b"
      by (rule Cons.IH [OF Cons.prems])
    also have "\<dots> = filter (\<lambda>(k, v). k \<notin> set (k0 # ks) \<or> \<not> ?del v) b"
      by (rule filter_cong) (use False get in auto)
    finally show ?thesis .
  qed
qed

text \<open>
  The builder in closed form: when the model is known, the messages convert and the
  output format is acceptable, the body is the object literal without its falsy and
  empty-list entries.
\<close>

lemma toAnthropicRequestBody_filter:
  assumes "lookup_model modelName = Some model"
    and "toAnthropicMessages (rq_messages request) = Inr am"
    and "\<not> (truthy_string (output_format request) \<and> output_format request \<noteq> Some ''text'')"
  shows "toAnthropicRequestBody modelName request stream
           = Inr (filter (\<lambda>(k, v). \<not> not_value v \<and> \<not> empty_array v)
                    (initial_body modelName model request am stream))"
proof -
  let ?b0 = "initial_body modelName model request am stream"
  have "strip_loop (map fst ?b0) ?b0
          = filter (\<lambda>(k, v). k \<notin> set (map fst ?b0) \<or> \<not> (not_value v \<or> empty_array v)) ?b0"
    by (rule strip_loop_filter [OF initial_body_distinct])
  also have "\<dots> = filter (\<lambda>(k, v). \<not> not_value v \<and> \<not> empty_array v) ?b0"
    by (rule filter_cong) force+
  finally show ?thesis using assms by (simp add: toAnthropicRequestBody_def Let_def)
qed

text \<open>
  Claim C7.  Whenever \<open>toAnthropicRequestBody\<close> returns a body, no key of the body
  holds a falsy value or an empty list, and each key occurs once; in particular
  \<open>top_k\<close> is not a key of the body when the request sets no \<open>topK\<close>.
\<close>

theorem toAnthropicRequestBody_stripped:
  assumes "toAnthropicRequestBody modelName request stream = Inr b"
  shows "(\<forall>(k, v) \<in> set b. \<not> not_value v \<and> \<not> empty_array v)
       \<and> distinct (map fst b)
       \<and> (config_field request topK = JUndefined \<longrightarrow> ''top_k'' \<notin> fst ` set b)"
proof -
  from assms obtain model am where
    b: "b = strip_loop (map fst (initial_body modelName model request am stream))
              (initial_body modelName model request am stream)"
    by (rule toAnthropicRequestBody_returns)
  let ?b0 = "initial_body modelName model request am stream"
  have d: "distinct (map fst ?b0)" by (rule initial_body_distinct)
  have kept: "(k, v) \<in> set ?b0 \<and> \<not> not_value v \<and> \<not> empty_array v"
    if "(k, v) \<in> set b" for k v
    using that unfolding b by (rule strip_loop_all_keys [OF d])
  have "\<forall>(k, v) \<in> set b. \<not> not_value v \<and> \<not> empty_array v"
    using kept by auto
  moreover have "distinct (map fst b)" unfolding b by (rule strip_loop_distinct [OF d])
  moreover have "''top_k'' \<notin> fst ` set b" if u: "config_field request topK = JUndefined"
  proof
    assume "''top_k'' \<in> fst ` set b"
    then obtain v where v: "(''top_k'', v) \<in> set b" by force
    from kept [OF v] have i: "(''top_k'', v) \<in> set ?b0" and n: "\<not> not_value v" by simp_all
    from initial_body_top_k [OF i] u n show False by simp
  qed
  ultimately show ?thesis by simp
qed

theorem toAnthropicRequestBody_stripped_witness:
  "toAnthropicRequestBody ''claude-3-haiku''
     \<lparr>rq_messages = [\<lparr>role = ''user'', content = [TextPart ''hi'']\<rparr>],
      rq_tools = Some [],
      rq_config = Some \<lparr>version = JUndefined, maxOutputTokens = JNull, topK = JUndefined,
                        topP = JNum 0, temperature = JNum 1, stopSequences = JArr [],
                        metadata = JUndefined, tool_choice = JUndefined\<rparr>,
      rq_output = None\<rparr>
     (Some False)
   = Inr [(''messages'',
            MessageList [\<lparr>mp_role = ''user'', mp_content = [TextBlock (Some ''hi'')]\<rparr>]),
          (''max_tokens'', Val (JNum 4096)),
          (''model'', Val (JStr ''claude-3-haiku-20240307'')),
          (''temperature'', Val (JNum 1))]
   \<and> ''top_k'' \<notin> fst ` set
        [(''messages'',
            MessageList [\<lparr>mp_role = ''user'', mp_content = [TextBlock (Some ''hi'')]\<rparr>]),
         (''max_tokens'', Val (JNum 4096)),
         (''model'', Val (JStr ''claude-3-haiku-20240307'')),
         (''temperature'', Val (JNum 1))]"
proof -
  let ?request = "\<lparr>rq_messages = [\<lparr>role = ''user'', content = [TextPart ''hi'']\<rparr>],
      rq_tools = Some [],
      rq_config = Some \<lparr>version = JUndefined, maxOutputTokens = JNull, topK = JUndefined,
                        topP = JNum 0, temperature = JNum 1, stopSequences = JArr [],
                        metadata = JUndefined, tool_choice = JUndefined\<rparr>,
      rq_output = None\<rparr>"
  have h: "toAnthropicRequestBody ''claude-3-haiku'' ?request (Some False)
     = Inr [(''messages'',
            MessageList [\<lparr>mp_role = ''user'', mp_content = [TextBlock (Some ''hi'')]\<rparr>]),
          (''max_tokens'', Val (JNum 4096)),
          (''model'', Val (JStr ''claude-3-haiku-20240307'')),
          (''temperature'', Val (JNum 1))]"
    by code_simp
  have u: "config_field ?request topK = JUndefined" by (simp add: config_field_def)
  from toAnthropicRequestBody_stripped [OF h] u h show ?thesis by simp
qed

text \<open>
  Claim C10.  When the configuration of the request sets \<open>maxOutputTokens\<close> to 0 and
  \<open>toAnthropicRequestBody\<close> returns a body, \<open>max_tokens\<close> is not a key of that body:
  0 is neither null nor undefined, so the default 4096 does not replace it, and the
  stripping loop deletes the falsy 0.
\<close>

theorem maxOutputTokens_zero_dropped:
  assumes "rq_config request = Some c" and "maxOutputTokens c = JNum 0"
    and "toAnthropicRequestBody modelName request stream = Inr b"
  shows "coalesce (config_field request maxOutputTokens) (JNum 4096) = JNum 0
       \<and> ''max_tokens'' \<notin> fst ` set b"
proof -
  have z: "coalesce (config_field request maxOutputTokens) (JNum 4096) = JNum 0"
    using assms(1,2) by (simp add: config_field_def coalesce_def nullish_def)
  from assms(3) obtain model am where
    b: "b = strip_loop (map fst (initial_body modelName model request am stream))
              (initial_body modelName model request am stream)"
    by (rule toAnthropicRequestBody_returns)
  let ?b0 = "initial_body modelName model request am stream"
  have d: "distinct (map fst ?b0)" by (rule initial_body_distinct)
  have "''max_tokens'' \<notin> fst ` set b"
  proof
    assume "''max_tokens'' \<in> fst ` set b"
    then obtain v where v: "(''max_tokens'', v) \<in> set b" by force
    from strip_loop_all_keys [OF d v [unfolded b]]
    have i: "(''max_tokens'', v) \<in> set ?b0" and n: "\<not> not_value v" by simp_all
    from initial_body_max_tokens [OF i] z n show False by simp
  qed
  with z show ?thesis by simp
qed

theorem maxOutputTokens_zero_dropped_witness:
  "toAnthropicRequestBody ''claude-3-5-sonnet''
     \<lparr>rq_messages = [\<lparr>role = ''user'', content = [TextPart ''hi'']\<rparr>],
      rq_tools = None,
      rq_config = Some \<lparr>version = JUndefined, maxOutputTokens = JNum 0, topK = JNum 5,
                        topP = JUndefined, temperature = JUndefined,
                        stopSequences = JUndefined, metadata = JUndefined,
                        tool_choice = JUndefined\<rparr>,
      rq_output = Some \<lparr>format = Some ''text''\<rparr>\<rparr>
     None
   = Inr [(''messages'',
            MessageList [\<lparr>mp_role = ''user'', mp_content = [TextBlock (Some ''hi'')]\<rparr>]),
          (''model'', Val (JStr ''claude-3-5-sonnet-20240620'')),
          (''top_k'', Val (JNum 5))]
   \<and> ''max_tokens'' \<notin> fst ` set
        [(''messages'',
            MessageList [\<lparr>mp_role = ''user'', mp_content = [TextBlock (Some ''hi'')]\<rparr>]),
         (''model'', Val (JStr ''claude-3-5-sonnet-20240620'')),
         (''top_k'', Val (JNum 5))]"
proof -
  let ?c = "\<lparr>version = JUndefined, maxOutputTokens = JNum 0, topK = JNum 5,
                        topP = JUndefined, temperature = JUndefined,
                        stopSequences = JUndefined, metadata = JUndefined,
                        tool_choice = JUndefined\<rparr>"
  let ?request = "\<lparr>rq_messages = [\<lparr>role = ''user'', content = [TextPart ''hi'']\<rparr>],
      rq_tools = None, rq_config = Some ?c, rq_output = Some \<lparr>format = Some ''text''\<rparr>\<rparr>"
  have h: "toAnthropicRequestBody ''claude-3-5-sonnet'' ?request None
     = Inr [(''messages'',
            MessageList [\<lparr>mp_role = ''user'', mp_content = [TextBlock (Some ''hi'')]\<rparr>]),
          (''model'', Val (JStr ''claude-3-5-sonnet-20240620'')),
          (''top_k'', Val (JNum 5))]"
    by code_simp
  have c: "rq_config ?request = Some ?c" by simp
  have z: "maxOutputTokens ?c = JNum 0" by simp
  from maxOutputTokens_zero_dropped [OF c z h] h show ?thesis by simp
qed

end
